theory Spec2Isabelle
  imports Complex_Main "HOL-Library.Option_ord" "HOL-Library.List_Lexorder" "HOL-Library.Char_ord"
begin

section \<open>The persistent store (db.js)\<close>

text \<open>
  Instants are JavaScript \<^verbatim>\<open>Date\<close> values: milliseconds since the epoch, as an
  \<^typ>\<open>int\<close>. The store keeps time stamps as text, in two formats:
  \<^item> \<^verbatim>\<open>expires_at\<close> is written by \<^verbatim>\<open>expiresAt.toISOString()\<close>
    (\<^verbatim>\<open>YYYY-MM-DDTHH:mm:ss.sssZ\<close>); \<^verbatim>\<open>new Date(text)\<close> reads the same
    instant back, so the column is held as that instant in milliseconds;
  \<^item> \<^verbatim>\<open>verified_at\<close> and \<^verbatim>\<open>created_at\<close> are written by SQLite's
    \<^verbatim>\<open>CURRENT_TIMESTAMP\<close> (\<^verbatim>\<open>YYYY-MM-DD HH:MM:SS\<close>, UTC, whole seconds);
    the columns are held as whole seconds since the epoch. The server's clock is taken
    to run in UTC, so that \<^verbatim>\<open>new Date(text)\<close> of such a text is that second.
\<close>

record otp_row =
  row_id :: nat
  otp_identifier :: string
  otp :: string
  otp_token :: string
  expires_at :: int
  is_used :: bool
  attempts :: int
  verified_at :: "int option"
  created_at :: int

text \<open>
  A row of \<^verbatim>\<open>users\<close>; \<^verbatim>\<open>mobile\<close>, \<^verbatim>\<open>passkey\<close> and
  \<^verbatim>\<open>last_login\<close> may be \<^verbatim>\<open>NULL\<close>.
\<close>

record user =
  user_id :: nat
  user_name :: string
  user_email :: string
  user_mobile :: "string option"
  user_password :: string
  user_passkey :: "string option"
  user_created_at :: int
  user_last_login :: "int option"
  user_is_active :: bool

record passkey_verification =
  pkv_id :: nat
  pkv_email :: string
  pkv_passkey_token :: string
  pkv_is_used :: bool
  pkv_created_at :: int
  pkv_expires_at :: int

text \<open>
  The body of a profile submission. JavaScript numbers are exact rationals here; the
  three totals are not validated by the server and may be missing from the body
  (\<open>None\<close> is \<^verbatim>\<open>undefined\<close>).
\<close>

record profile_body =
  employmentStatus :: string
  monthlyIncome :: rat
  additionalIncome :: string
  additionalIncomeAmount :: rat
  housingCost :: rat
  utilities :: rat
  transportation :: rat
  groceries :: rat
  otherExpenses :: rat
  totalDebt :: rat
  monthlyDebtPayment :: rat
  currentSavings :: rat
  emergencyFund :: rat
  goals :: "string list"
  savingsGoal :: rat
  timeHorizon :: string
  riskTolerance :: string
  totalIncome :: "rat option"
  totalExpenses :: "rat option"
  netIncome :: "rat option"

text \<open>
  A row of \<^verbatim>\<open>financial_profiles\<close>: its id, its \<^verbatim>\<open>user_id\<close>, and the
  twenty columns that the handler copies from the body.
\<close>

record financial_profile =
  profile_id :: nat
  profile_user_id :: nat
  profile_columns :: profile_body
  profile_updated_at :: int

text \<open>
  The store. The OTP tables are addressed by their name, as the SQL text interpolates
  it; a name with no table makes the statement fail. \<^verbatim>\<open>faults\<close> scripts the
  failures of the driver that do not come from the data: the head tells whether the next
  call of \<^verbatim>\<open>dbGet\<close> or \<^verbatim>\<open>dbRun\<close> is rejected; an empty script is a store
  that answers every call.
\<close>

record store =
  users :: "user list"
  otp_tables :: "string \<Rightarrow> otp_row list option"
  passkey_verifications :: "passkey_verification list"
  financial_profiles :: "financial_profile list"
  faults :: "bool list"

datatype thrown = StoreFailure | JsError string

definition db_call :: "store \<Rightarrow> bool \<times> store" where
  "db_call s = (case faults s of [] \<Rightarrow> (False, s) | f # fs \<Rightarrow> (f, s\<lparr>faults := fs\<rparr>))"

text \<open>
  \<^verbatim>\<open>dbGet(sql, params)\<close>: the promise rejects when the driver reports an error and
  resolves to what the statement selects otherwise. The statement is given by the table
  it reads (\<open>None\<close> when the table does not exist) and by what it selects from the rows.
\<close>

definition dbGet :: "(store \<Rightarrow> 'r list option) \<Rightarrow> ('r list \<Rightarrow> 'a) \<Rightarrow> store \<Rightarrow> (thrown + 'a) \<times> store" where
  "dbGet tbl sel s =
     (case db_call s of
        (True, s') \<Rightarrow> (Inl StoreFailure, s')
      | (False, s') \<Rightarrow>
          (case tbl s' of
             None \<Rightarrow> (Inl StoreFailure, s')
           | Some rows \<Rightarrow> (Inr (sel rows), s')))"

text \<open>
  \<^verbatim>\<open>dbRun(sql, params)\<close>: as \<^verbatim>\<open>dbGet\<close>, for a statement that rewrites the rows
  of its table; \<open>put\<close> stores the new rows.
\<close>

definition dbRun :: "(store \<Rightarrow> 'r list option) \<Rightarrow> ('r list \<Rightarrow> store \<Rightarrow> store) \<Rightarrow> ('r list \<Rightarrow> 'r list) \<Rightarrow> store \<Rightarrow> (thrown + unit) \<times> store" where
  "dbRun tbl put upd s =
     (case db_call s of
        (True, s') \<Rightarrow> (Inl StoreFailure, s')
      | (False, s') \<Rightarrow>
          (case tbl s' of
             None \<Rightarrow> (Inl StoreFailure, s')
           | Some rows \<Rightarrow> (Inr (), put (upd rows) s')))"

definition otp_table :: "string \<Rightarrow> store \<Rightarrow> otp_row list option" where
  "otp_table table s = otp_tables s table"

definition put_otp_table :: "string \<Rightarrow> otp_row list \<Rightarrow> store \<Rightarrow> store" where
  "put_otp_table table rows s = s\<lparr>otp_tables := (otp_tables s)(table \<mapsto> rows)\<rparr>"

text \<open>
  \<^verbatim>\<open>ORDER BY key DESC LIMIT 1\<close>: a row whose key is greatest; among equal keys
  SQL leaves the choice to the engine, and the model takes the first in the order of the
  list. A \<^verbatim>\<open>NULL\<close> key (\<open>None\<close>) sorts below every value in SQLite.
\<close>

fun order_by_desc_limit_1 :: "('r \<Rightarrow> 'k::linorder) \<Rightarrow> 'r list \<Rightarrow> 'r option" where
  "order_by_desc_limit_1 key [] = None"
| "order_by_desc_limit_1 key (r # rs) =
     (case order_by_desc_limit_1 key rs of
        None \<Rightarrow> Some r
      | Some b \<Rightarrow> if key r < key b then Some b else Some r)"

section \<open>The OTP service (otp-service.js)\<close>

definition OTP_EXPIRY_MINUTES :: int where
  "OTP_EXPIRY_MINUTES = 10"

definition MAX_ATTEMPTS :: int where
  "MAX_ATTEMPTS = 5"

text \<open>
  \<^verbatim>\<open>tableMap[type] || 'custom_otp_codes'\<close>. The channel tag is a string that names
  no property inherited from \<^verbatim>\<open>Object.prototype\<close>.
\<close>

definition getTableName :: "string \<Rightarrow> string" where
  "getTableName otp_type =
     (if otp_type = ''sms'' then ''otp_codes''
      else if otp_type = ''email'' then ''email_otp_codes''
      else if otp_type = ''custom'' then ''custom_otp_codes''
      else ''custom_otp_codes'')"

datatype otp_code = INVALID_OTP | EXPIRED_OTP | MAX_ATTEMPTS_EXCEEDED | WRONG_OTP | VERIFIED

record otp_result =
  success :: bool
  message :: string
  code :: otp_code
  remainingAttempts :: "int option"

text \<open>Decimal text of a number, as a template literal prints it.\<close>

definition digit :: "nat \<Rightarrow> char" where
  "digit d = ''0123456789'' ! d"

fun decimal :: "nat \<Rightarrow> string" where
  "decimal n = (if n < 10 then [digit n] else decimal (n div 10) @ [digit (n mod 10)])"

definition show_int :: "int \<Rightarrow> string" where
  "show_int i = (if i < 0 then CHR ''-'' # decimal (nat (- i)) else decimal (nat i))"

text \<open>
  The \<^verbatim>\<open>SELECT\<close> of \<^verbatim>\<open>verifyOTP\<close>:
  \<^verbatim>\<open>WHERE identifier = ? AND otp_token = ? AND is_used = 0 ORDER BY created_at DESC LIMIT 1\<close>.
\<close>

definition select_unused :: "string \<Rightarrow> string \<Rightarrow> otp_row list \<Rightarrow> otp_row option" where
  "select_unused ident tok rows =
     order_by_desc_limit_1 created_at
       (filter (\<lambda>r. otp_identifier r = ident \<and> otp_token r = tok \<and> \<not> is_used r) rows)"

text \<open>\<^verbatim>\<open>UPDATE t SET attempts = attempts + 1 WHERE id = ?\<close>\<close>

definition increment_attempts :: "nat \<Rightarrow> otp_row list \<Rightarrow> otp_row list" where
  "increment_attempts i rows =
     map (\<lambda>r. if row_id r = i then r\<lparr>attempts := attempts r + 1\<rparr> else r) rows"

text \<open>\<^verbatim>\<open>UPDATE t SET is_used = 1, verified_at = CURRENT_TIMESTAMP WHERE id = ?\<close>\<close>

definition CURRENT_TIMESTAMP :: "int \<Rightarrow> int" where
  "CURRENT_TIMESTAMP now = now div 1000"

definition mark_used :: "int \<Rightarrow> nat \<Rightarrow> otp_row list \<Rightarrow> otp_row list" where
  "mark_used now i rows =
     map (\<lambda>r. if row_id r = i then r\<lparr>is_used := True, verified_at := Some (CURRENT_TIMESTAMP now)\<rparr> else r) rows"

text \<open>
  \<^verbatim>\<open>verifyOTP(type, identifier, otp, token)\<close> at the instant \<open>now\<close>. Every
  failure of the store inside the \<^verbatim>\<open>try\<close> is caught and thrown again as
  \<^verbatim>\<open>Error('Failed to verify OTP')\<close>.
\<close>

definition verifyOTP :: "int \<Rightarrow> string \<Rightarrow> string \<Rightarrow> string \<Rightarrow> string \<Rightarrow> store \<Rightarrow> (thrown + otp_result) \<times> store" where
  "verifyOTP now otp_type ident claimed tok s =
     (let table = getTableName otp_type in
      case dbGet (otp_table table) (select_unused ident tok) s of
        (Inl e, s1) \<Rightarrow> (Inl (JsError ''Failed to verify OTP''), s1)
      | (Inr None, s1) \<Rightarrow>
          (Inr \<lparr>success = False, message = ''Invalid or expired verification code'',
                code = INVALID_OTP, remainingAttempts = None\<rparr>, s1)
      | (Inr (Some otpRecord), s1) \<Rightarrow>
          if now > expires_at otpRecord then
            (Inr \<lparr>success = False,
                  message = ''Verification code has expired. Please request a new one.'',
                  code = EXPIRED_OTP, remainingAttempts = None\<rparr>, s1)
          else if attempts otpRecord \<ge> MAX_ATTEMPTS then
            (Inr \<lparr>success = False,
                  message = ''Maximum verification attempts exceeded. Please request a new code.'',
                  code = MAX_ATTEMPTS_EXCEEDED, remainingAttempts = None\<rparr>, s1)
          else if otp otpRecord \<noteq> claimed then
            (case dbRun (otp_table table) (put_otp_table table)
                    (increment_attempts (row_id otpRecord)) s1 of
               (Inl e, s2) \<Rightarrow> (Inl (JsError ''Failed to verify OTP''), s2)
             | (Inr u, s2) \<Rightarrow>
                 (let remaining = MAX_ATTEMPTS - (attempts otpRecord + 1) in
                  (Inr \<lparr>success = False,
                        message = ''Invalid verification code. '' @ show_int remaining
                                    @ '' attempts remaining.'',
                        code = WRONG_OTP, remainingAttempts = Some remaining\<rparr>, s2)))
          else
            (case dbRun (otp_table table) (put_otp_table table)
                    (mark_used now (row_id otpRecord)) s1 of
               (Inl e, s2) \<Rightarrow> (Inl (JsError ''Failed to verify OTP''), s2)
             | (Inr u, s2) \<Rightarrow>
                 (Inr \<lparr>success = True, message = ''Verification code verified successfully'',
                       code = VERIFIED, remainingAttempts = None\<rparr>, s2)))"

text \<open>
  \<^verbatim>\<open>storeOTP(type, identifier, otp, token)\<close>:
  \<^verbatim>\<open>INSERT INTO t (identifier, otp, otp_token, expires_at, attempts) VALUES (?, ?, ?, ?, 0)\<close>.
  The other columns take their defaults; the new \<^verbatim>\<open>id\<close> lies above every id of the
  table (\<^verbatim>\<open>AUTOINCREMENT\<close>).
\<close>

definition getExpiryTime :: "int \<Rightarrow> int" where
  "getExpiryTime now = now + OTP_EXPIRY_MINUTES * 60 * 1000"

definition fresh_id :: "otp_row list \<Rightarrow> nat" where
  "fresh_id rows = Suc (fold max (map row_id rows) 0)"

definition insert_otp :: "int \<Rightarrow> string \<Rightarrow> string \<Rightarrow> string \<Rightarrow> int \<Rightarrow> otp_row list \<Rightarrow> otp_row list" where
  "insert_otp now ident code_text tok expiresAt rows =
     rows @ [\<lparr>row_id = fresh_id rows, otp_identifier = ident, otp = code_text, otp_token = tok,
              expires_at = expiresAt, is_used = False, attempts = 0, verified_at = None,
              created_at = CURRENT_TIMESTAMP now\<rparr>]"

record store_result =
  stored :: bool
  token :: string
  expiresAt :: int
  expiresIn :: int

definition storeOTP :: "int \<Rightarrow> string \<Rightarrow> string \<Rightarrow> string \<Rightarrow> string \<Rightarrow> store \<Rightarrow> (thrown + store_result) \<times> store" where
  "storeOTP now otp_type ident code_text tok s =
     (let expires = getExpiryTime now; table = getTableName otp_type in
      case dbRun (otp_table table) (put_otp_table table) (insert_otp now ident code_text tok expires) s of
        (Inl e, s1) \<Rightarrow> (Inl (JsError ''Failed to store OTP''), s1)
      | (Inr u, s1) \<Rightarrow>
          (Inr \<lparr>stored = True, token = tok, expiresAt = expires,
                expiresIn = OTP_EXPIRY_MINUTES * 60\<rparr>, s1))"

text \<open>
  \<^verbatim>\<open>isVerificationValid(type, identifier, token, maxMinutes)\<close>: the row is selected by
  \<^verbatim>\<open>WHERE identifier = ? AND otp_token = ? AND is_used = 1 ORDER BY verified_at DESC LIMIT 1\<close>;
  \<^verbatim>\<open>timeDiff = (now - verifiedAt) / 1000 / 60\<close> is computed on exact rationals.
  The \<^verbatim>\<open>catch\<close> answers \<^verbatim>\<open>false\<close>.
\<close>

definition select_used :: "string \<Rightarrow> string \<Rightarrow> otp_row list \<Rightarrow> otp_row option" where
  "select_used ident tok rows =
     order_by_desc_limit_1 verified_at
       (filter (\<lambda>r. otp_identifier r = ident \<and> otp_token r = tok \<and> is_used r) rows)"

definition isVerificationValid :: "int \<Rightarrow> string \<Rightarrow> string \<Rightarrow> string \<Rightarrow> rat \<Rightarrow> store \<Rightarrow> (thrown + bool) \<times> store" where
  "isVerificationValid now otp_type ident tok maxMinutes s =
     (let table = getTableName otp_type in
      case dbGet (otp_table table) (select_used ident tok) s of
        (Inl e, s1) \<Rightarrow> (Inr False, s1)
      | (Inr None, s1) \<Rightarrow> (Inr False, s1)
      | (Inr (Some otpRecord), s1) \<Rightarrow>
          (case verified_at otpRecord of
             None \<Rightarrow> (Inr False, s1)
           | Some verifiedAt \<Rightarrow>
               (let timeDiff = (of_int (now - verifiedAt * 1000) :: rat) / 1000 / 60 in
                (Inr (timeDiff \<le> maxMinutes), s1))))"

text \<open>
  \<^verbatim>\<open>invalidateOTPs(type, identifier)\<close>:
  \<^verbatim>\<open>UPDATE t SET is_used = 1 WHERE identifier = ?\<close>; the \<^verbatim>\<open>catch\<close> only logs.
\<close>

definition mark_all_used :: "string \<Rightarrow> otp_row list \<Rightarrow> otp_row list" where
  "mark_all_used ident rows =
     map (\<lambda>r. if otp_identifier r = ident then r\<lparr>is_used := True\<rparr> else r) rows"

definition invalidateOTPs :: "string \<Rightarrow> string \<Rightarrow> store \<Rightarrow> (thrown + unit) \<times> store" where
  "invalidateOTPs otp_type ident s =
     (let table = getTableName otp_type in
      case dbRun (otp_table table) (put_otp_table table) (mark_all_used ident) s of
        (Inl e, s1) \<Rightarrow> (Inr (), s1)
      | (Inr u, s1) \<Rightarrow> (Inr (), s1))"

text \<open>
  \<^verbatim>\<open>cleanupExpiredOTPs(type = null)\<close> runs
  \<^verbatim>\<open>DELETE FROM t WHERE expires_at < datetime('now', '-1 day')\<close> on each table in turn.
  SQLite compares the two operands as text. The left one is the ISO text of
  \<^verbatim>\<open>toISOString\<close>, the right one is \<^verbatim>\<open>YYYY-MM-DD HH:MM:SS\<close>: both begin with
  the ten characters of the UTC date, and where the dates agree the next characters are
  \<^verbatim>\<open>T\<close> on the left and a space on the right, and \<^verbatim>\<open>T\<close> is the greater. So the
  left text is the smaller exactly when its UTC day is the earlier (years 0000 to 9999).
\<close>

definition datetime_now_minus_1_day :: "int \<Rightarrow> int" where
  "datetime_now_minus_1_day now = CURRENT_TIMESTAMP now - 86400"

definition iso_text_less_datetime :: "int \<Rightarrow> int \<Rightarrow> bool" where
  "iso_text_less_datetime iso_ms datetime_s = (iso_ms div 86400000 < datetime_s div 86400)"

definition delete_expired :: "int \<Rightarrow> otp_row list \<Rightarrow> otp_row list" where
  "delete_expired now rows =
     filter (\<lambda>r. \<not> iso_text_less_datetime (expires_at r) (datetime_now_minus_1_day now)) rows"

fun cleanup_loop :: "int \<Rightarrow> string list \<Rightarrow> store \<Rightarrow> (thrown + unit) \<times> store" where
  "cleanup_loop now [] s = (Inr (), s)"
| "cleanup_loop now (table # tables) s =
     (case dbRun (otp_table table) (put_otp_table table) (delete_expired now) s of
        (Inl e, s1) \<Rightarrow> (Inl e, s1)
      | (Inr u, s1) \<Rightarrow> cleanup_loop now tables s1)"

text \<open>
  \<^verbatim>\<open>type ? [this.getTableName(type)] : [...]\<close>; the empty string is falsy, as
  \<^verbatim>\<open>null\<close> (\<open>None\<close>) is.
\<close>

definition cleanup_tables :: "string option \<Rightarrow> string list" where
  "cleanup_tables otp_type =
     (case otp_type of
        None \<Rightarrow> [''otp_codes'', ''email_otp_codes'', ''custom_otp_codes'']
      | Some t \<Rightarrow> if t = [] then [''otp_codes'', ''email_otp_codes'', ''custom_otp_codes'']
                  else [getTableName t])"

definition cleanupExpiredOTPs :: "int \<Rightarrow> string option \<Rightarrow> store \<Rightarrow> (thrown + unit) \<times> store" where
  "cleanupExpiredOTPs now otp_type s =
     (case cleanup_loop now (cleanup_tables otp_type) s of
        (Inl e, s1) \<Rightarrow> (Inr (), s1)
      | (Inr u, s1) \<Rightarrow> (Inr (), s1))"

text \<open>
  \<^verbatim>\<open>createOTP(type, identifier)\<close>; the code and the token are the draws of
  \<^verbatim>\<open>generateOTP()\<close> and \<^verbatim>\<open>generateToken()\<close>.
\<close>

record created_otp =
  new_otp :: string
  new_token :: string
  new_expiresAt :: int
  new_expiresIn :: int

definition createOTP :: "int \<Rightarrow> string \<Rightarrow> string \<Rightarrow> string \<Rightarrow> string \<Rightarrow> store \<Rightarrow> (thrown + created_otp) \<times> store" where
  "createOTP now drawn_otp drawn_token otp_type ident s =
     (case storeOTP now otp_type ident drawn_otp drawn_token s of
        (Inl e, s1) \<Rightarrow> (Inl e, s1)
      | (Inr result, s1) \<Rightarrow>
          (Inr \<lparr>new_otp = drawn_otp, new_token = token result,
                new_expiresAt = expiresAt result, new_expiresIn = expiresIn result\<rparr>, s1))"

section \<open>The notification service\<close>

text \<open>
  The environment variables that the service reads; \<open>None\<close> is an unset variable.
\<close>

record environment =
  APP_NAME :: "string option"
  TWILIO_PHONE_NUMBER :: "string option"
  EMAIL_FROM :: "string option"

text \<open>\<^verbatim>\<open>value || fallback\<close> on an optional string: unset and empty are falsy.\<close>

definition or_default :: "string option \<Rightarrow> string \<Rightarrow> string" where
  "or_default v d = (case v of None \<Rightarrow> d | Some x \<Rightarrow> if x = [] then d else x)"

text \<open>
  The two providers. \<^verbatim>\<open>twilioClient.messages.create({body, to, from})\<close> resolves to a
  result with a \<^verbatim>\<open>sid\<close> (\<open>Inr\<close>) or rejects with an \<^verbatim>\<open>Error\<close> and its message
  (\<open>Inl\<close>); \<^verbatim>\<open>emailTransporter.sendMail({from, to, subject, html})\<close> resolves to an
  info with a \<^verbatim>\<open>messageId\<close> or rejects. A client that was never initialised is
  \<^verbatim>\<open>null\<close> (\<open>None\<close>).
\<close>

record notification_service =
  enableSMS :: bool
  twilioClient :: "(string \<Rightarrow> string \<Rightarrow> string option \<Rightarrow> string + string) option"
  enableEmail :: bool
  emailTransporter :: "(string \<Rightarrow> string \<Rightarrow> string \<Rightarrow> string \<Rightarrow> string + string) option"

datatype console_line = ConsoleLog string | ConsoleError string

record send_result =
  send_success :: bool
  messageId :: "string option"
  fallback :: bool
  development :: bool

text \<open>
  \<^verbatim>\<open>logSMS\<close> and \<^verbatim>\<open>logEmail\<close>: the lines that carry the message (the decoration of
  the output is left out).
\<close>

definition logSMS :: "string \<Rightarrow> string \<Rightarrow> console_line list" where
  "logSMS mobile msg =
     [ConsoleLog (''SMS to: '' @ mobile), ConsoleLog (''Message: '' @ msg),
      ConsoleLog ''To enable real SMS, set ENABLE_SMS=true in .env'']"

definition logEmail :: "string \<Rightarrow> string \<Rightarrow> string \<Rightarrow> console_line list" where
  "logEmail email subject html =
     [ConsoleLog (''Email to: '' @ email), ConsoleLog (''Subject: '' @ subject),
      ConsoleLog ''Content: [HTML Email - Check browser for preview]'',
      ConsoleLog ''To enable real emails, set ENABLE_EMAIL=true in .env'']"

text \<open>
  \<^verbatim>\<open>sendSMS(mobile, message)\<close>: the result of the \<^verbatim>\<open>async\<close> function (\<open>Inl\<close>
  would be a rejection) and the lines written to the console.
\<close>

definition sendSMS :: "notification_service \<Rightarrow> environment \<Rightarrow> string \<Rightarrow> string \<Rightarrow> (thrown + send_result) \<times> console_line list" where
  "sendSMS svc env mobile msg =
     (case (if enableSMS svc then twilioClient svc else None) of
        Some create \<Rightarrow>
          (case create msg mobile (TWILIO_PHONE_NUMBER env) of
             Inr sid \<Rightarrow>
               (Inr \<lparr>send_success = True, messageId = Some sid, fallback = False, development = False\<rparr>,
                [ConsoleLog (''SMS sent to '' @ mobile @ '' - SID: '' @ sid)])
           | Inl error_message \<Rightarrow>
               (Inr \<lparr>send_success = True, messageId = None, fallback = True, development = False\<rparr>,
                ConsoleError (''SMS error: '' @ error_message) # logSMS mobile msg))
      | None \<Rightarrow>
          (Inr \<lparr>send_success = True, messageId = None, fallback = False, development = True\<rparr>,
           logSMS mobile msg))"

definition sendEmail :: "notification_service \<Rightarrow> environment \<Rightarrow> string \<Rightarrow> string \<Rightarrow> string \<Rightarrow> (thrown + send_result) \<times> console_line list" where
  "sendEmail svc env email subject html =
     (case (if enableEmail svc then emailTransporter svc else None) of
        Some sendMail \<Rightarrow>
          (case sendMail (''\"'' @ or_default (APP_NAME env) ''Fincoach'' @ ''\" <''
                            @ or_default (EMAIL_FROM env) ''noreply@fincoach.com'' @ ''>'')
                  email subject html of
             Inr mid \<Rightarrow>
               (Inr \<lparr>send_success = True, messageId = Some mid, fallback = False, development = False\<rparr>,
                [ConsoleLog (''Email sent to '' @ email @ '' - ID: '' @ mid)])
           | Inl error_message \<Rightarrow>
               (Inr \<lparr>send_success = True, messageId = None, fallback = True, development = False\<rparr>,
                ConsoleError (''Email error: '' @ error_message) # logEmail email subject html))
      | None \<Rightarrow>
          (Inr \<lparr>send_success = True, messageId = None, fallback = False, development = True\<rparr>,
           logEmail email subject html))"

definition sendOTPSMS :: "notification_service \<Rightarrow> environment \<Rightarrow> string \<Rightarrow> string \<Rightarrow> (thrown + send_result) \<times> console_line list" where
  "sendOTPSMS svc env mobile code_text =
     sendSMS svc env mobile
       (''Your '' @ or_default (APP_NAME env) ''Fincoach'' @ '' verification code is '' @ code_text
          @ ''. Valid for 10 minutes. Do not share this code with anyone.'')"

text \<open>
  \<^verbatim>\<open>sendOTPEmail(email, otp)\<close>. The markup of \<^verbatim>\<open>getOTPEmailTemplate(otp)\<close>, a
  fixed HTML page around the code and the current year, is the parameter \<open>template\<close>.
\<close>

definition sendOTPEmail :: "(string \<Rightarrow> string) \<Rightarrow> notification_service \<Rightarrow> environment \<Rightarrow> string \<Rightarrow> string \<Rightarrow> (thrown + send_result) \<times> console_line list" where
  "sendOTPEmail template svc env email code_text =
     sendEmail svc env email (or_default (APP_NAME env) ''Fincoach'' @ '' - Verification Code'')
       (template code_text)"

section \<open>The HTTP routes\<close>

text \<open>
  A request: the \<^verbatim>\<open>Authorization\<close> header (\<open>None\<close> when it is not sent) and the
  fields that the routes read from the JSON body. A field is a string; a field that is
  missing from the body is the empty string, which JavaScript treats as falsy just as
  \<^verbatim>\<open>undefined\<close>.
\<close>

record request =
  authorization :: "string option"
  req_name :: string
  req_email :: string
  req_mobile :: string
  req_password :: string
  req_passkey :: string
  req_newPassword :: string
  req_otpToken :: string
  req_passkeyToken :: string

text \<open>
  A response: \<^verbatim>\<open>res.status(n).json({success, message, errors, error, data})\<close>; the
  fields that a route leaves out are \<open>None\<close> or empty.
\<close>

record 'd response =
  status :: nat
  res_success :: bool
  res_message :: "string option"
  res_errors :: "string list"
  res_error :: "thrown option"
  res_data :: "'d option"

definition reply :: "nat \<Rightarrow> bool \<Rightarrow> string \<Rightarrow> 'd response" where
  "reply n ok msg =
     \<lparr>status = n, res_success = ok, res_message = Some msg, res_errors = [],
      res_error = None, res_data = None\<rparr>"

definition reply_errors :: "string list \<Rightarrow> 'd response" where
  "reply_errors errs =
     \<lparr>status = 400, res_success = False, res_message = None, res_errors = errs,
      res_error = None, res_data = None\<rparr>"

definition reply_caught :: "nat \<Rightarrow> string \<Rightarrow> thrown \<Rightarrow> 'd response" where
  "reply_caught n msg e =
     \<lparr>status = n, res_success = False, res_message = Some msg, res_errors = [],
      res_error = Some e, res_data = None\<rparr>"

definition reply_data :: "nat \<Rightarrow> string \<Rightarrow> 'd \<Rightarrow> 'd response" where
  "reply_data n msg d =
     \<lparr>status = n, res_success = True, res_message = Some msg, res_errors = [],
      res_error = None, res_data = Some d\<rparr>"

text \<open>
  The libraries behind the routes: the validators \<^verbatim>\<open>isEmail\<close> and
  \<^verbatim>\<open>normalizeEmail\<close>, \<^verbatim>\<open>bcrypt.hash(data, salt)\<close>, \<^verbatim>\<open>jwt.sign\<close> of an account id
  and \<^verbatim>\<open>jwt.verify\<close> of a token, which throw on a bad secret or token. The salt of
  \<^verbatim>\<open>bcrypt.genSalt(10)\<close> is an argument of the route.
\<close>

record libraries =
  isEmail :: "string \<Rightarrow> bool"
  normalizeEmail :: "string \<Rightarrow> string"
  bcrypt_hash :: "string \<Rightarrow> string \<Rightarrow> string"
  jwt_sign :: "nat \<Rightarrow> thrown + string"
  jwt_verify :: "string \<Rightarrow> thrown + nat"

definition users_table :: "store \<Rightarrow> user list option" where
  "users_table s = Some (users s)"

definition put_users :: "user list \<Rightarrow> store \<Rightarrow> store" where
  "put_users rows s = s\<lparr>users := rows\<rparr>"



subsection \<open>Signup\<close>





definition select_by_email :: "string \<Rightarrow> user list \<Rightarrow> user option" where
  "select_by_email email rows = find (\<lambda>u. user_email u = email) rows"






subsection \<open>Setting the passkey\<close>

text \<open>\<^verbatim>\<open>UPDATE users SET passkey = ? WHERE id = ?\<close>\<close>

definition update_passkey :: "string \<Rightarrow> nat \<Rightarrow> user list \<Rightarrow> user list" where
  "update_passkey hashed i rows =
     map (\<lambda>u. if user_id u = i then u\<lparr>user_passkey := Some hashed\<rparr> else u) rows"

text \<open>
  \<^verbatim>\<open>router.post('/set-passkey', async (req, res) => ...)\<close>: the route has no middleware
  before its handler.
\<close>

definition set_passkey :: "libraries \<Rightarrow> string \<Rightarrow> request \<Rightarrow> store \<Rightarrow> unit response \<times> store" where
  "set_passkey lib salt req s =
     (if req_email req = [] \<or> req_passkey req = [] then
        (reply 400 False ''Email and passkey are required'', s)
      else if length (req_passkey req) < 8 then
        (reply 400 False ''Passkey must be at least 8 characters'', s)
      else
        (case dbGet users_table (select_by_email (req_email req)) s of
           (Inl e, s1) \<Rightarrow> (reply_caught 500 ''Error setting passkey'' e, s1)
         | (Inr None, s1) \<Rightarrow> (reply 404 False ''User not found'', s1)
         | (Inr (Some user), s1) \<Rightarrow>
             (case dbRun users_table put_users
                     (update_passkey (bcrypt_hash lib (req_passkey req) salt) (user_id user)) s1 of
                (Inl e, s2) \<Rightarrow> (reply_caught 500 ''Error setting passkey'' e, s2)
              | (Inr u, s2) \<Rightarrow> (reply 200 True ''Security passkey set successfully'', s2))))"

subsection \<open>Resetting the password\<close>






subsection \<open>The middleware of the private routes (auth.js)\<close>

text \<open>\<^verbatim>\<open>text.split(' ')\<close>\<close>

fun split_on_space :: "string \<Rightarrow> string list" where
  "split_on_space [] = [[]]"
| "split_on_space (c # cs) =
     (if c = CHR '' '' then [] # split_on_space cs
      else (case split_on_space cs of [] \<Rightarrow> [[c]] | w # ws \<Rightarrow> (c # w) # ws))"

definition bearer_token :: "string option \<Rightarrow> string option" where
  "bearer_token header =
     (case header of
        None \<Rightarrow> None
      | Some h \<Rightarrow>
          if h \<noteq> [] \<and> take 6 h = ''Bearer'' then
            (case split_on_space h of
               a # t # rest \<Rightarrow> if t = [] then None else Some t
             | _ \<Rightarrow> None)
          else None)"

text \<open>
  \<^verbatim>\<open>protect\<close>: \<open>Inl\<close> is the response that ends the request, \<open>Inr\<close> the account that
  \<^verbatim>\<open>next()\<close> hands to the handler as \<^verbatim>\<open>req.user\<close>.
\<close>

definition protect :: "libraries \<Rightarrow> request \<Rightarrow> store \<Rightarrow> ('d response + user) \<times> store" where
  "protect lib req s =
     (case bearer_token (authorization req) of
        None \<Rightarrow> (Inl (reply 401 False ''Not authorized to access this route''), s)
      | Some t \<Rightarrow>
          (case jwt_verify lib t of
             Inl e \<Rightarrow> (Inl (reply_caught 401 ''Not authorized to access this route'' e), s)
           | Inr decoded_id \<Rightarrow>
               (case dbGet users_table (find (\<lambda>u. user_id u = decoded_id)) s of
                  (Inl e, s1) \<Rightarrow> (Inl (reply_caught 401 ''Not authorized to access this route'' e), s1)
                | (Inr None, s1) \<Rightarrow> (Inl (reply 404 False ''User not found''), s1)
                | (Inr (Some user), s1) \<Rightarrow> (Inr user, s1))))"

subsection \<open>The financial profile\<close>


text \<open>
  \<^verbatim>\<open>Number.prototype.toFixed(f)\<close> as ECMAScript defines it, on an exact rational below
  \<open>10\<^sup>2\<^sup>1\<close> in size: the sign, then the digits of the integer \<open>n\<close> nearest to
  \<open>x * 10\<^sup>f\<close> (the larger of two), padded with zeros to \<open>f + 1\<close> digits and split
  before the last \<open>f\<close>.
\<close>

definition toFixed :: "nat \<Rightarrow> rat \<Rightarrow> string" where
  "toFixed f x =
     (let sign = (if x < 0 then ''-'' else []);
          n = nat \<lfloor>\<bar>x\<bar> * 10 ^ f + 1 / 2\<rfloor>;
          m = decimal n;
          padded = (if length m \<le> f then replicate (f + 1 - length m) CHR ''0'' @ m else m);
          k = length padded
      in if f = 0 then sign @ m
         else sign @ take (k - f) padded @ ''.'' @ drop (k - f) padded)"

datatype js_value = JsNumber rat | JsString string

text \<open>
  \<^verbatim>\<open>totalIncome > 0 ? ((netIncome / totalIncome) * 100).toFixed(2) : 0\<close>; a missing
  \<^verbatim>\<open>totalIncome\<close> compares false, a missing \<^verbatim>\<open>netIncome\<close> divides to \<^verbatim>\<open>NaN\<close>.
\<close>

definition savingsRate :: "rat option \<Rightarrow> rat option \<Rightarrow> js_value" where
  "savingsRate total_income net =
     (case total_income of
        None \<Rightarrow> JsNumber 0
      | Some t \<Rightarrow>
          if t > 0 then
            (case net of None \<Rightarrow> JsString ''NaN'' | Some n \<Rightarrow> JsString (toFixed 2 (n / t * 100)))
          else JsNumber 0)"

record summary =
  sum_totalIncome :: "rat option"
  sum_totalExpenses :: "rat option"
  sum_netIncome :: "rat option"
  sum_savingsRate :: js_value

record profile_data =
  profileId :: nat
  profile_summary :: summary

text \<open>\<^verbatim>\<open>profileValidation\<close>; \<^verbatim>\<open>isFloat({ min: 0 })\<close> on a number of the body.\<close>

definition profileValidation :: "profile_body \<Rightarrow> string list" where
  "profileValidation b =
     (if employmentStatus b = [] then [''Employment status is required''] else [])
     @ (if monthlyIncome b \<ge> 0 then [] else [''Valid monthly income is required''])
     @ (if housingCost b \<ge> 0 then [] else [''Valid housing cost is required''])
     @ (if utilities b \<ge> 0 then [] else [''Valid utilities cost is required''])
     @ (if transportation b \<ge> 0 then [] else [''Valid transportation cost is required''])
     @ (if groceries b \<ge> 0 then [] else [''Valid groceries cost is required''])"

definition profiles_table :: "store \<Rightarrow> financial_profile list option" where
  "profiles_table s = Some (financial_profiles s)"

definition put_profiles :: "financial_profile list \<Rightarrow> store \<Rightarrow> store" where
  "put_profiles rows s = s\<lparr>financial_profiles := rows\<rparr>"

definition fresh_profile_id :: "financial_profile list \<Rightarrow> nat" where
  "fresh_profile_id rows = Suc (fold max (map profile_id rows) 0)"

text \<open>The \<^verbatim>\<open>UPDATE ... WHERE user_id = ?\<close> and the \<^verbatim>\<open>INSERT\<close> of the handler.\<close>

definition update_profile :: "int \<Rightarrow> nat \<Rightarrow> profile_body \<Rightarrow> financial_profile list \<Rightarrow> financial_profile list" where
  "update_profile now uid b rows =
     map (\<lambda>p. if profile_user_id p = uid
               then p\<lparr>profile_columns := b, profile_updated_at := CURRENT_TIMESTAMP now\<rparr> else p) rows"

definition insert_profile :: "int \<Rightarrow> nat \<Rightarrow> profile_body \<Rightarrow> financial_profile list \<Rightarrow> financial_profile list" where
  "insert_profile now uid b rows =
     rows @ [\<lparr>profile_id = fresh_profile_id rows, profile_user_id = uid, profile_columns = b,
              profile_updated_at = CURRENT_TIMESTAMP now\<rparr>]"

text \<open>
  \<^verbatim>\<open>router.post('/', protect, profileValidation, async (req, res) => ...)\<close> of
  financial-profile.js.
\<close>

definition post_financial_profile :: "libraries \<Rightarrow> int \<Rightarrow> request \<Rightarrow> profile_body \<Rightarrow> store \<Rightarrow> profile_data response \<times> store" where
  "post_financial_profile lib now req b s =
     (case protect lib req s of
        (Inl rejected, s0) \<Rightarrow> (rejected, s0)
      | (Inr user, s0) \<Rightarrow>
          if profileValidation b \<noteq> [] then (reply_errors (profileValidation b), s0)
          else
            (case dbGet profiles_table (find (\<lambda>p. profile_user_id p = user_id user)) s0 of
               (Inl e, s1) \<Rightarrow> (reply_caught 500 ''Error saving financial profile'' e, s1)
             | (Inr existingProfile, s1) \<Rightarrow>
                 (let new_id = fresh_profile_id (financial_profiles s1) in
                  case dbRun profiles_table put_profiles
                         (case existingProfile of
                            Some p \<Rightarrow> update_profile now (user_id user) b
                          | None \<Rightarrow> insert_profile now (user_id user) b) s1 of
                    (Inl e, s2) \<Rightarrow> (reply_caught 500 ''Error saving financial profile'' e, s2)
                  | (Inr u, s2) \<Rightarrow>
                      (reply_data 200 ''Financial profile saved successfully''
                         \<lparr>profileId = (case existingProfile of Some p \<Rightarrow> profile_id p | None \<Rightarrow> new_id),
                          profile_summary =
                            \<lparr>sum_totalIncome = totalIncome b, sum_totalExpenses = totalExpenses b,
                             sum_netIncome = netIncome b,
                             sum_savingsRate = savingsRate (totalIncome b) (netIncome b)\<rparr>\<rparr>, s2))))"

section \<open>The specification's outcome list and example data\<close>

text \<open>
  The outcomes of \<^verbatim>\<open>verify\<close> as the specification lists them, in its priority
  order: no matching row, expiry, attempts cap, code comparison, match.
\<close>

definition outcome_by_priority :: "otp_row option \<Rightarrow> int \<Rightarrow> string \<Rightarrow> otp_code" where
  "outcome_by_priority found now claimed =
     (case found of
        None \<Rightarrow> INVALID_OTP
      | Some r \<Rightarrow>
          if now > expires_at r then EXPIRED_OTP
          else if attempts r \<ge> 5 then MAX_ATTEMPTS_EXCEEDED
          else if otp r \<noteq> claimed then WRONG_OTP
          else VERIFIED)"

text \<open>
  An SMS code issued at instant 0 for \<^verbatim>\<open>+15551234567\<close>, with \<open>n\<close> recorded
  attempts, and a store as \<^verbatim>\<open>initDatabase\<close> creates it: the tables
  \<^verbatim>\<open>otp_codes\<close> and \<^verbatim>\<open>email_otp_codes\<close>, and no table \<^verbatim>\<open>custom_otp_codes\<close>.
\<close>

definition example_row :: "int \<Rightarrow> otp_row" where
  "example_row n =
     \<lparr>row_id = 1, otp_identifier = ''+15551234567'', otp = ''482913'', otp_token = ''abc'',
      expires_at = 600000, is_used = False, attempts = n, verified_at = None, created_at = 0\<rparr>"

definition example_store :: "otp_row list \<Rightarrow> store" where
  "example_store rows =
     \<lparr>users = [], otp_tables = [''email_otp_codes'' \<mapsto> [], ''otp_codes'' \<mapsto> rows],
      passkey_verifications = [], financial_profiles = [], faults = []\<rparr>"

text \<open>The rows of an OTP table; a table that does not exist has none.\<close>

definition rows_in :: "string \<Rightarrow> store \<Rightarrow> otp_row list" where
  "rows_in table s = (case otp_tables s table of None \<Rightarrow> [] | Some rows \<Rightarrow> rows)"

text \<open>
  The calls of the OTP service, and the store that a call leaves behind, whatever it
  returned or threw.
\<close>

datatype service_call =
    Store int string string string string
  | Verify int string string string string
  | IsValid int string string string rat
  | Invalidate string string
  | Cleanup int "string option"

fun perform :: "service_call \<Rightarrow> store \<Rightarrow> store" where
  "perform (Store now otp_type ident code_text tok) s = snd (storeOTP now otp_type ident code_text tok s)"
| "perform (Verify now otp_type ident claimed tok) s = snd (verifyOTP now otp_type ident claimed tok s)"
| "perform (IsValid now otp_type ident tok maxMinutes) s = snd (isVerificationValid now otp_type ident tok maxMinutes s)"
| "perform (Invalidate otp_type ident) s = snd (invalidateOTPs otp_type ident s)"
| "perform (Cleanup now otp_type) s = snd (cleanupExpiredOTPs now otp_type s)"

text \<open>A call that stores a row under the given table, identifier and token.\<close>

fun reissues :: "string \<Rightarrow> string \<Rightarrow> string \<Rightarrow> service_call \<Rightarrow> bool" where
  "reissues table ident tok (Store now otp_type i code_text k) =
     (getTableName otp_type = table \<and> i = ident \<and> k = tok)"
| "reissues table ident tok c = False"

text \<open>
  Every row with the given identifier and token is used; and the table exists and all
  its rows with the given identifier and token are used.
\<close>

definition all_used :: "string \<Rightarrow> string \<Rightarrow> otp_row list \<Rightarrow> bool" where
  "all_used ident tok rows =
     list_all (\<lambda>x. otp_identifier x = ident \<and> otp_token x = tok \<longrightarrow> is_used x) rows"

definition consumed :: "string \<Rightarrow> string \<Rightarrow> string \<Rightarrow> store \<Rightarrow> bool" where
  "consumed table ident tok s =
     (case otp_tables s table of None \<Rightarrow> False | Some rows \<Rightarrow> all_used ident tok rows)"

text \<open>
  An email code that expired at 2025-01-02T01:00:00.000Z (1735779600000 ms), and the
  instant 2025-01-03T23:00:00Z (1735945200000 ms), 46 hours later.
\<close>

definition stale_row :: otp_row where
  "stale_row =
     \<lparr>row_id = 7, otp_identifier = ''+15551234567'', otp = ''073519'', otp_token = ''f00d'',
      expires_at = 1735779600000, is_used = False, attempts = 0, verified_at = None,
      created_at = 1735779000\<rparr>"

text \<open>The example row after a verification in second 1.\<close>

definition verified_row :: otp_row where
  "verified_row = (example_row 0)\<lparr>is_used := True, verified_at := Some 1\<rparr>"

text \<open>
  Two accounts, in the order in which the store yields them, a request to sign up with
  the email of the second and the mobile number of the first, and stand-ins for the
  libraries.
\<close>

definition account_a :: user where
  "account_a =
     \<lparr>user_id = 2, user_name = ''Asha'', user_email = ''asha@example.com'',
      user_mobile = Some ''+15550000002'', user_password = ''$2a$10$hashA'', user_passkey = None,
      user_created_at = 0, user_last_login = None, user_is_active = True\<rparr>"

definition account_b :: user where
  "account_b =
     \<lparr>user_id = 1, user_name = ''Bela'', user_email = ''bela@example.com'',
      user_mobile = Some ''+15551234567'', user_password = ''$2a$10$hashB'', user_passkey = None,
      user_created_at = 0, user_last_login = None, user_is_active = True\<rparr>"

definition accounts_store :: "otp_row list \<Rightarrow> bool list \<Rightarrow> store" where
  "accounts_store rows script =
     \<lparr>users = [account_b, account_a],
      otp_tables = [''email_otp_codes'' \<mapsto> [], ''otp_codes'' \<mapsto> rows],
      passkey_verifications = [], financial_profiles = [], faults = script\<rparr>"

definition example_libraries :: libraries where
  "example_libraries =
     \<lparr>isEmail = (\<lambda>e. CHR ''@'' \<in> set e), normalizeEmail = (\<lambda>e. e),
      bcrypt_hash = (\<lambda>d salt. salt @ d), jwt_sign = (\<lambda>i. Inr ''signed''),
      jwt_verify = (\<lambda>t. if t = ''signed'' then Inr 1 else Inl (JsError ''jwt malformed''))\<rparr>"

definition blank_request :: request where
  "blank_request =
     \<lparr>authorization = None, req_name = [], req_email = [], req_mobile = [], req_password = [],
      req_passkey = [], req_newPassword = [], req_otpToken = [], req_passkeyToken = []\<rparr>"







definition passkey_request :: request where
  "passkey_request =
     blank_request\<lparr>req_email := ''asha@example.com'', req_passkey := ''open sesame''\<rparr>"


section \<open>Properties of the store primitives\<close>

lemma db_call_answers: "faults s = [] \<Longrightarrow> db_call s = (False, s)"
  by (simp add: db_call_def)

lemma dbGet_answers:
  "faults s = [] \<Longrightarrow> tbl s = Some rows \<Longrightarrow> dbGet tbl sel s = (Inr (sel rows), s)"
  by (simp add: dbGet_def db_call_answers)

lemma dbRun_answers:
  "faults s = [] \<Longrightarrow> tbl s = Some rows \<Longrightarrow> dbRun tbl put upd s = (Inr (), put (upd rows) s)"
  by (simp add: dbRun_def db_call_answers)

lemma order_by_desc_limit_1_mem:
  "order_by_desc_limit_1 key rs = Some r \<Longrightarrow> r \<in> set rs"
  by (induction rs arbitrary: r) (auto split: option.splits if_splits)

lemma select_unused_mem:
  "select_unused ident tok rows = Some r \<Longrightarrow>
     r \<in> set rows \<and> otp_identifier r = ident \<and> otp_token r = tok \<and> \<not> is_used r"
  unfolding select_unused_def by (auto dest: order_by_desc_limit_1_mem)

text \<open>With \<^verbatim>\<open>id\<close> a primary key, \<^verbatim>\<open>WHERE id = ?\<close> touches the one row.\<close>

lemma update_by_id:
  "distinct (map row_id rows) \<Longrightarrow> r \<in> set rows \<Longrightarrow>
     map (\<lambda>x. if row_id x = row_id r then f x else x) rows = map (\<lambda>x. if x = r then f r else x) rows"
  by (auto simp: distinct_map inj_on_def)

text \<open>The example row is the row that issuing the code at instant 0 stores.\<close>

lemma example_row_issued:
  "createOTP 0 ''482913'' ''abc'' ''sms'' ''+15551234567'' (example_store []) =
     (Inr \<lparr>new_otp = ''482913'', new_token = ''abc'', new_expiresAt = 600000, new_expiresIn = 600\<rparr>,
      example_store [example_row 0])"
  by (simp add: createOTP_def storeOTP_def dbRun_def db_call_def example_store_def example_row_def
      getTableName_def otp_table_def put_otp_table_def insert_otp_def fresh_id_def getExpiryTime_def
      OTP_EXPIRY_MINUTES_def CURRENT_TIMESTAMP_def Let_def)

lemma example_select_unused:
  "select_unused ''+15551234567'' ''abc'' [example_row n] = Some (example_row n)"
  by (simp add: select_unused_def example_row_def)

lemma example_store_sms:
  "faults (example_store rows) = [] \<and> otp_tables (example_store rows) (getTableName ''sms'') = Some rows"
  by (simp add: example_store_def getTableName_def)

section \<open>Verification of a claimed code\<close>

text \<open>
  C1. When the store answers and the row that \<^verbatim>\<open>verifyOTP\<close> looks up (matching
  identifier and token, unused) is unexpired and has at least 5 recorded attempts, the
  call returns \<^verbatim>\<open>MAX_ATTEMPTS_EXCEEDED\<close> and leaves the store as it is, whatever the
  claimed code, and so also for the stored code itself. The outcome of every call follows
  the priority list of the specification: no matching row, then expiry, then the attempts
  cap, then the comparison of the codes.
\<close>

theorem verifyOTP_attempts_cap_precedes_code_check:
  assumes "faults s = []"
    and "otp_tables s (getTableName otp_type) = Some rows"
  shows "(\<forall>r. select_unused ident tok rows = Some r \<and> \<not> now > expires_at r \<and> attempts r \<ge> 5 \<longrightarrow>
            (\<forall>c. verifyOTP now otp_type ident c tok s =
               (Inr \<lparr>success = False,
                     message = ''Maximum verification attempts exceeded. Please request a new code.'',
                     code = MAX_ATTEMPTS_EXCEEDED, remainingAttempts = None\<rparr>, s))
          \<and> fst (verifyOTP now otp_type ident (otp r) tok s) =
               Inr \<lparr>success = False,
                    message = ''Maximum verification attempts exceeded. Please request a new code.'',
                    code = MAX_ATTEMPTS_EXCEEDED, remainingAttempts = None\<rparr>)
       \<and> (\<exists>res s'. verifyOTP now otp_type ident claimed tok s = (Inr res, s')
             \<and> code res = outcome_by_priority (select_unused ident tok rows) now claimed)"
proof -
  have tbl: "otp_table (getTableName otp_type) s = Some rows"
    using assms(2) by (simp add: otp_table_def)
  have get: "dbGet (otp_table (getTableName otp_type)) (select_unused ident tok) s
               = (Inr (select_unused ident tok rows), s)"
    using assms(1) tbl by (rule dbGet_answers)
  have run: "\<And>upd. dbRun (otp_table (getTableName otp_type)) (put_otp_table (getTableName otp_type)) upd s
               = (Inr (), put_otp_table (getTableName otp_type) (upd rows) s)"
    using assms(1) tbl by (rule dbRun_answers)
  have cap: "\<And>r c. select_unused ident tok rows = Some r \<Longrightarrow> \<not> now > expires_at r \<Longrightarrow> attempts r \<ge> 5 \<Longrightarrow>
      verifyOTP now otp_type ident c tok s =
               (Inr \<lparr>success = False,
                     message = ''Maximum verification attempts exceeded. Please request a new code.'',
                     code = MAX_ATTEMPTS_EXCEEDED, remainingAttempts = None\<rparr>, s)"
    by (simp add: verifyOTP_def get MAX_ATTEMPTS_def)
  have prio: "\<exists>res s'. verifyOTP now otp_type ident claimed tok s = (Inr res, s')
             \<and> code res = outcome_by_priority (select_unused ident tok rows) now claimed"
    by (cases "select_unused ident tok rows")
       (simp_all add: verifyOTP_def get run outcome_by_priority_def MAX_ATTEMPTS_def Let_def)
  show ?thesis using cap prio by simp
qed

theorem verifyOTP_attempts_cap_precedes_code_check_witness:
  "faults (example_store [example_row 5]) = []
   \<and> otp_tables (example_store [example_row 5]) (getTableName ''sms'') = Some [example_row 5]
   \<and> select_unused ''+15551234567'' ''abc'' [example_row 5] = Some (example_row 5)
   \<and> \<not> 1000 > expires_at (example_row 5) \<and> attempts (example_row 5) \<ge> 5
   \<and> otp (example_row 5) = ''482913''
   \<and> verifyOTP 1000 ''sms'' ''+15551234567'' ''482913'' ''abc'' (example_store [example_row 5]) =
        (Inr \<lparr>success = False,
              message = ''Maximum verification attempts exceeded. Please request a new code.'',
              code = MAX_ATTEMPTS_EXCEEDED, remainingAttempts = None\<rparr>, example_store [example_row 5])"
proof -
  have h: "faults (example_store [example_row 5]) = []"
    "otp_tables (example_store [example_row 5]) (getTableName ''sms'') = Some [example_row 5]"
    using example_store_sms by simp_all
  have r: "select_unused ''+15551234567'' ''abc'' [example_row 5] = Some (example_row 5)"
    by (rule example_select_unused)
  have f: "\<not> 1000 > expires_at (example_row 5)" "attempts (example_row 5) \<ge> 5"
    "otp (example_row 5) = ''482913''"
    by (simp_all add: example_row_def)
  from verifyOTP_attempts_cap_precedes_code_check [OF h, of "''+15551234567''" "''abc''" 1000 "''482913''"] r f
  have "verifyOTP 1000 ''sms'' ''+15551234567'' ''482913'' ''abc'' (example_store [example_row 5]) =
        (Inr \<lparr>success = False,
              message = ''Maximum verification attempts exceeded. Please request a new code.'',
              code = MAX_ATTEMPTS_EXCEEDED, remainingAttempts = None\<rparr>, example_store [example_row 5])"
    by blast
  with h r f show ?thesis by simp
qed

text \<open>
  C2. When the store answers and the row looked up is unexpired, has fewer than 5
  recorded attempts and a stored code other than the claimed one, \<^verbatim>\<open>verifyOTP\<close>
  returns \<^verbatim>\<open>WRONG_OTP\<close> with \<^verbatim>\<open>remainingAttempts\<close> equal to 5 minus the new
  attempts value, and the store differs only in that row, whose attempts counter is one
  higher and whose other fields are as before.
\<close>

theorem verifyOTP_wrong_code_increments_attempts:
  assumes "faults s = []"
    and "otp_tables s (getTableName otp_type) = Some rows"
    and "distinct (map row_id rows)"
    and "select_unused ident tok rows = Some r"
    and "\<not> now > expires_at r"
    and "attempts r < 5"
    and "otp r \<noteq> claimed"
  shows "\<exists>res. verifyOTP now otp_type ident claimed tok s =
           (Inr res, s\<lparr>otp_tables := (otp_tables s)(getTableName otp_type \<mapsto>
                         map (\<lambda>x. if x = r then r\<lparr>attempts := attempts r + 1\<rparr> else x) rows)\<rparr>)
         \<and> \<not> success res \<and> code res = WRONG_OTP
         \<and> remainingAttempts res = Some (5 - attempts (r\<lparr>attempts := attempts r + 1\<rparr>))"
proof -
  have tbl: "otp_table (getTableName otp_type) s = Some rows"
    using assms(2) by (simp add: otp_table_def)
  have mem: "r \<in> set rows"
    using assms(4) by (simp add: select_unused_mem)
  have upd: "increment_attempts (row_id r) rows
               = map (\<lambda>x. if x = r then r\<lparr>attempts := attempts r + 1\<rparr> else x) rows"
    unfolding increment_attempts_def using assms(3) mem by (rule update_by_id)
  show ?thesis
    using assms(1,4,5,6,7) tbl
    by (simp add: verifyOTP_def dbGet_answers dbRun_answers MAX_ATTEMPTS_def upd put_otp_table_def Let_def)
qed

theorem verifyOTP_wrong_code_increments_attempts_witness:
  "faults (example_store [example_row 0]) = []
   \<and> otp_tables (example_store [example_row 0]) (getTableName ''sms'') = Some [example_row 0]
   \<and> distinct (map row_id [example_row 0])
   \<and> select_unused ''+15551234567'' ''abc'' [example_row 0] = Some (example_row 0)
   \<and> \<not> 1000 > expires_at (example_row 0) \<and> attempts (example_row 0) < 5
   \<and> otp (example_row 0) \<noteq> ''000000''
   \<and> (\<exists>res. verifyOTP 1000 ''sms'' ''+15551234567'' ''000000'' ''abc'' (example_store [example_row 0]) =
           (Inr res, example_store [example_row 1])
         \<and> code res = WRONG_OTP \<and> remainingAttempts res = Some 4)"
proof -
  have h: "faults (example_store [example_row 0]) = []"
    "otp_tables (example_store [example_row 0]) (getTableName ''sms'') = Some [example_row 0]"
    using example_store_sms by simp_all
  have d: "distinct (map row_id [example_row 0])"
    by simp
  have r: "select_unused ''+15551234567'' ''abc'' [example_row 0] = Some (example_row 0)"
    by (rule example_select_unused)
  have f: "\<not> 1000 > expires_at (example_row 0)" "attempts (example_row 0) < 5"
    "otp (example_row 0) \<noteq> ''000000''"
    by (simp_all add: example_row_def)
  have e: "(example_store [example_row 0])\<lparr>otp_tables := (otp_tables (example_store [example_row 0]))
              (getTableName ''sms'' \<mapsto> map (\<lambda>x. if x = example_row 0
                 then (example_row 0)\<lparr>attempts := attempts (example_row 0) + 1\<rparr> else x) [example_row 0])\<rparr>
           = example_store [example_row 1]"
    by (simp add: example_store_def example_row_def getTableName_def)
  have a: "5 - attempts ((example_row 0)\<lparr>attempts := attempts (example_row 0) + 1\<rparr>) = 4"
    by (simp add: example_row_def)
  from verifyOTP_wrong_code_increments_attempts [OF h d r f]
  have "\<exists>res. verifyOTP 1000 ''sms'' ''+15551234567'' ''000000'' ''abc'' (example_store [example_row 0]) =
           (Inr res, example_store [example_row 1])
         \<and> code res = WRONG_OTP \<and> remainingAttempts res = Some 4"
    unfolding e a by blast
  with h d r f show ?thesis by simp
qed

section \<open>A verified code is consumed\<close>

lemma otp_tables_put_otp_table [simp]:
  "otp_tables (put_otp_table table rows s) = (otp_tables s)(table \<mapsto> rows)"
  by (simp add: put_otp_table_def)

lemma dbGet_cases:
  "dbGet tbl sel s = (res, s') \<Longrightarrow>
     otp_tables s' = otp_tables s \<and>
     ((\<exists>fs. faults s = True # fs \<and> res = Inl StoreFailure)
      \<or> (tbl s' = None \<and> res = Inl StoreFailure)
      \<or> (\<exists>rows. tbl s' = Some rows \<and> res = Inr (sel rows)))"
  by (auto simp: dbGet_def db_call_def split: list.splits bool.splits option.splits if_splits)

lemma dbRun_otp_tables:
  "dbRun (otp_table t) (put_otp_table t) upd s = (res, s') \<Longrightarrow>
     otp_tables s' = otp_tables s
     \<or> (\<exists>rows. otp_tables s t = Some rows \<and> otp_tables s' = (otp_tables s)(t \<mapsto> upd rows))"
  by (auto simp: dbRun_def db_call_def otp_table_def split: list.splits bool.splits option.splits if_splits)

lemma consumed_dbRun:
  assumes "consumed table ident tok s"
    and "dbRun (otp_table t) (put_otp_table t) upd s = (res, s')"
    and "\<And>rows. t = table \<Longrightarrow> all_used ident tok rows \<Longrightarrow> all_used ident tok (upd rows)"
  shows "consumed table ident tok s'"
  using dbRun_otp_tables [OF assms(2)] assms(1,3)
  by (auto simp: consumed_def split: option.splits if_splits)

lemma consumed_dbGet:
  "consumed table ident tok s \<Longrightarrow> dbGet tbl sel s = (res, s') \<Longrightarrow> consumed table ident tok s'"
  by (auto simp: consumed_def dest!: dbGet_cases)

lemma used_increment_attempts:
  "all_used ident tok rows \<Longrightarrow>
   all_used ident tok (increment_attempts i rows)"
  by (auto simp: increment_attempts_def all_used_def list_all_iff)

lemma used_mark_used:
  "all_used ident tok rows \<Longrightarrow>
   all_used ident tok (mark_used now i rows)"
  by (auto simp: mark_used_def all_used_def list_all_iff)

lemma used_mark_all_used:
  "all_used ident tok rows \<Longrightarrow>
   all_used ident tok (mark_all_used i rows)"
  by (auto simp: mark_all_used_def all_used_def list_all_iff)

lemma used_delete_expired:
  "all_used ident tok rows \<Longrightarrow>
   all_used ident tok (delete_expired now rows)"
  by (auto simp: delete_expired_def all_used_def list_all_iff)

lemma used_insert_otp:
  "all_used ident tok rows \<Longrightarrow>
   \<not> (i = ident \<and> k = tok) \<Longrightarrow>
   all_used ident tok (insert_otp now i c k e rows)"
  by (auto simp: insert_otp_def all_used_def list_all_iff)

lemma consumed_verifyOTP:
  assumes "consumed table ident tok s"
  shows "consumed table ident tok (snd (verifyOTP now otp_type i c k s))"
proof -
  obtain res s1 where g: "dbGet (otp_table (getTableName otp_type)) (select_unused i k) s = (res, s1)"
    by (cases "dbGet (otp_table (getTableName otp_type)) (select_unused i k) s")
  have c1: "consumed table ident tok s1"
    using assms g by (rule consumed_dbGet)
  have r: "\<And>upd res' s2. dbRun (otp_table (getTableName otp_type)) (put_otp_table (getTableName otp_type)) upd s1 = (res', s2)
       \<Longrightarrow> (\<And>rows. all_used ident tok rows \<Longrightarrow> all_used ident tok (upd rows))
       \<Longrightarrow> consumed table ident tok s2"
    using c1 by (rule consumed_dbRun)
  show ?thesis
    using c1 g r [OF _ used_increment_attempts] r [OF _ used_mark_used]
    by (auto simp: verifyOTP_def Let_def split: sum.splits option.splits prod.splits)
qed

lemma consumed_storeOTP:
  assumes "consumed table ident tok s"
    and "\<not> (getTableName otp_type = table \<and> i = ident \<and> k = tok)"
  shows "consumed table ident tok (snd (storeOTP now otp_type i c k s))"
proof -
  obtain res s1 where g: "dbRun (otp_table (getTableName otp_type)) (put_otp_table (getTableName otp_type))
           (insert_otp now i c k (getExpiryTime now)) s = (res, s1)"
    by (cases "dbRun (otp_table (getTableName otp_type)) (put_otp_table (getTableName otp_type))
           (insert_otp now i c k (getExpiryTime now)) s")
  have "consumed table ident tok s1"
    using assms(1) g
  proof (rule consumed_dbRun)
    fix rows :: "otp_row list"
    assume "getTableName otp_type = table"
      and "all_used ident tok rows"
    then show "all_used ident tok
                 (insert_otp now i c k (getExpiryTime now) rows)"
      using assms(2) by (simp add: used_insert_otp)
  qed
  then show ?thesis
    using g by (auto simp: storeOTP_def Let_def split: sum.splits)
qed

lemma consumed_isVerificationValid:
  assumes "consumed table ident tok s"
  shows "consumed table ident tok (snd (isVerificationValid now otp_type i k m s))"
proof -
  obtain res s1 where g: "dbGet (otp_table (getTableName otp_type)) (select_used i k) s = (res, s1)"
    by (cases "dbGet (otp_table (getTableName otp_type)) (select_used i k) s")
  have "consumed table ident tok s1"
    using assms g by (rule consumed_dbGet)
  then show ?thesis
    using g by (auto simp: isVerificationValid_def Let_def split: sum.splits option.splits)
qed

lemma consumed_invalidateOTPs:
  assumes "consumed table ident tok s"
  shows "consumed table ident tok (snd (invalidateOTPs otp_type i s))"
proof -
  obtain res s1 where g: "dbRun (otp_table (getTableName otp_type)) (put_otp_table (getTableName otp_type))
           (mark_all_used i) s = (res, s1)"
    by (cases "dbRun (otp_table (getTableName otp_type)) (put_otp_table (getTableName otp_type))
           (mark_all_used i) s")
  have "consumed table ident tok s1"
    using assms g used_mark_all_used by (rule consumed_dbRun)
  then show ?thesis
    using g by (auto simp: invalidateOTPs_def Let_def split: sum.splits)
qed

lemma consumed_cleanup_loop:
  "consumed table ident tok s \<Longrightarrow> consumed table ident tok (snd (cleanup_loop now tables s))"
proof (induction tables arbitrary: s)
  case Nil
  then show ?case by simp
next
  case (Cons t tables)
  obtain res s1 where g: "dbRun (otp_table t) (put_otp_table t) (delete_expired now) s = (res, s1)"
    by (cases "dbRun (otp_table t) (put_otp_table t) (delete_expired now) s")
  have "consumed table ident tok s1"
    using Cons.prems g used_delete_expired by (rule consumed_dbRun)
  then show ?case
    using g Cons.IH [of s1] by (auto split: sum.splits)
qed

lemma consumed_cleanupExpiredOTPs:
  assumes "consumed table ident tok s"
  shows "consumed table ident tok (snd (cleanupExpiredOTPs now otp_type s))"
proof -
  have "snd (cleanupExpiredOTPs now otp_type s) = snd (cleanup_loop now (cleanup_tables otp_type) s)"
    by (cases "cleanup_loop now (cleanup_tables otp_type) s") (simp add: cleanupExpiredOTPs_def split: sum.splits)
  then show ?thesis
    using assms by (simp add: consumed_cleanup_loop)
qed

lemma consumed_perform:
  "consumed table ident tok s \<Longrightarrow> \<not> reissues table ident tok c \<Longrightarrow> consumed table ident tok (perform c s)"
  by (cases c)
     (simp_all add: consumed_verifyOTP consumed_storeOTP consumed_isVerificationValid
        consumed_invalidateOTPs consumed_cleanupExpiredOTPs)

lemma consumed_fold_perform:
  "consumed table ident tok s \<Longrightarrow> \<forall>c \<in> set calls. \<not> reissues table ident tok c \<Longrightarrow>
     consumed table ident tok (fold perform calls s)"
  by (induction calls arbitrary: s) (simp_all add: consumed_perform)

lemma consumed_verifyOTP_invalid:
  assumes "consumed (getTableName otp_type) ident tok s"
  shows "fst (verifyOTP now otp_type ident claimed tok s) =
           (if \<exists>fs. faults s = True # fs then Inl (JsError ''Failed to verify OTP'')
            else Inr \<lparr>success = False, message = ''Invalid or expired verification code'',
                      code = INVALID_OTP, remainingAttempts = None\<rparr>)"
proof -
  obtain rows where rows: "otp_tables s (getTableName otp_type) = Some rows"
    and used: "all_used ident tok rows"
    using assms by (auto simp: consumed_def split: option.splits)
  have "filter (\<lambda>r. otp_identifier r = ident \<and> otp_token r = tok \<and> \<not> is_used r) rows = []"
    using used by (auto simp: filter_empty_conv all_used_def list_all_iff)
  then have none: "select_unused ident tok rows = None"
    by (simp add: select_unused_def)
  show ?thesis
    using rows none
    by (auto simp: verifyOTP_def dbGet_def db_call_def otp_table_def Let_def
        split: list.splits bool.splits)
qed

text \<open>
  C3. When the store answers and the row looked up is the only unused row of its table
  with the identifier and token, is unexpired, has fewer than 5 recorded attempts and
  holds the claimed code, \<^verbatim>\<open>verifyOTP\<close> returns \<^verbatim>\<open>VERIFIED\<close> and the store differs
  only in that row, now used and stamped with \<^verbatim>\<open>verified_at\<close>. After that, whatever
  calls of the service follow and whichever of them the store rejects, as long as none
  stores a new row under the same table, identifier and token, every call of
  \<^verbatim>\<open>verifyOTP\<close> with that identifier and token returns \<^verbatim>\<open>INVALID_OTP\<close>, for every
  claimed code and at every instant (or throws, when the store rejects its lookup): the
  row is verified at most once.
\<close>

theorem verifyOTP_verified_once:
  assumes "faults s = []"
    and "otp_tables s (getTableName otp_type) = Some rows"
    and "distinct (map row_id rows)"
    and "select_unused ident tok rows = Some r"
    and "\<forall>x \<in> set rows. otp_identifier x = ident \<and> otp_token x = tok \<and> \<not> is_used x \<longrightarrow> x = r"
    and "\<not> now > expires_at r"
    and "attempts r < 5"
    and "otp r = claimed"
  shows "\<exists>res s1. verifyOTP now otp_type ident claimed tok s = (Inr res, s1)
           \<and> success res \<and> code res = VERIFIED
           \<and> s1 = s\<lparr>otp_tables := (otp_tables s)(getTableName otp_type \<mapsto>
                     map (\<lambda>x. if x = r then r\<lparr>is_used := True, verified_at := Some (CURRENT_TIMESTAMP now)\<rparr>
                               else x) rows)\<rparr>
           \<and> (\<forall>calls fs now' claimed'.
                 (\<forall>c \<in> set calls. \<not> reissues (getTableName otp_type) ident tok c) \<longrightarrow>
                 fst (verifyOTP now' otp_type ident claimed' tok (fold perform calls (s1\<lparr>faults := fs\<rparr>))) =
                   (if \<exists>fs'. faults (fold perform calls (s1\<lparr>faults := fs\<rparr>)) = True # fs'
                    then Inl (JsError ''Failed to verify OTP'')
                    else Inr \<lparr>success = False, message = ''Invalid or expired verification code'',
                              code = INVALID_OTP, remainingAttempts = None\<rparr>))"
proof -
  let ?rows' = "map (\<lambda>x. if x = r then r\<lparr>is_used := True, verified_at := Some (CURRENT_TIMESTAMP now)\<rparr>
                          else x) rows"
  let ?s1 = "s\<lparr>otp_tables := (otp_tables s)(getTableName otp_type \<mapsto> ?rows')\<rparr>"
  have tbl: "otp_table (getTableName otp_type) s = Some rows"
    using assms(2) by (simp add: otp_table_def)
  have mem: "r \<in> set rows"
    using assms(4) by (simp add: select_unused_mem)
  have upd: "mark_used now (row_id r) rows = ?rows'"
    unfolding mark_used_def using assms(3) mem by (rule update_by_id)
  have first: "verifyOTP now otp_type ident claimed tok s =
      (Inr \<lparr>success = True, message = ''Verification code verified successfully'',
             code = VERIFIED, remainingAttempts = None\<rparr>, ?s1)"
    using assms(1,4,6,7,8) tbl
    by (simp add: verifyOTP_def dbGet_answers dbRun_answers MAX_ATTEMPTS_def upd put_otp_table_def Let_def)
  have used: "all_used ident tok ?rows'"
    using assms(5) by (auto simp: all_used_def list_all_iff)
  have c: "\<And>fs. consumed (getTableName otp_type) ident tok (?s1\<lparr>faults := fs\<rparr>)"
    using used by (simp add: consumed_def)
  have later: "\<And>calls fs now' claimed'.
      \<forall>c \<in> set calls. \<not> reissues (getTableName otp_type) ident tok c \<Longrightarrow>
      fst (verifyOTP now' otp_type ident claimed' tok (fold perform calls (?s1\<lparr>faults := fs\<rparr>))) =
        (if \<exists>fs'. faults (fold perform calls (?s1\<lparr>faults := fs\<rparr>)) = True # fs'
         then Inl (JsError ''Failed to verify OTP'')
         else Inr \<lparr>success = False, message = ''Invalid or expired verification code'',
                   code = INVALID_OTP, remainingAttempts = None\<rparr>)"
    by (rule consumed_verifyOTP_invalid) (rule consumed_fold_perform [OF c])
  show ?thesis
    using first later by simp
qed

theorem verifyOTP_verified_once_witness:
  "faults (example_store [example_row 0]) = []
   \<and> otp_tables (example_store [example_row 0]) (getTableName ''sms'') = Some [example_row 0]
   \<and> distinct (map row_id [example_row 0])
   \<and> select_unused ''+15551234567'' ''abc'' [example_row 0] = Some (example_row 0)
   \<and> filter (\<lambda>x. otp_identifier x = ''+15551234567'' \<and> otp_token x = ''abc'' \<and> \<not> is_used x)
         [example_row 0] = [example_row 0]
   \<and> \<not> 1000 > expires_at (example_row 0) \<and> attempts (example_row 0) < 5
   \<and> otp (example_row 0) = ''482913''
   \<and> (\<exists>res. verifyOTP 1000 ''sms'' ''+15551234567'' ''482913'' ''abc'' (example_store [example_row 0])
                = (Inr res, example_store [verified_row]) \<and> code res = VERIFIED)
   \<and> fst (verifyOTP 2000 ''sms'' ''+15551234567'' ''482913'' ''abc'' (example_store [verified_row]))
        = Inr \<lparr>success = False, message = ''Invalid or expired verification code'',
                code = INVALID_OTP, remainingAttempts = None\<rparr>"
proof -
  have h: "faults (example_store [example_row 0]) = []"
    "otp_tables (example_store [example_row 0]) (getTableName ''sms'') = Some [example_row 0]"
    using example_store_sms by simp_all
  have d: "distinct (map row_id [example_row 0])"
    by simp
  have r: "select_unused ''+15551234567'' ''abc'' [example_row 0] = Some (example_row 0)"
    by (rule example_select_unused)
  have u: "\<forall>x \<in> set [example_row 0]. otp_identifier x = ''+15551234567'' \<and> otp_token x = ''abc''
          \<and> \<not> is_used x \<longrightarrow> x = example_row 0"
    by simp
  have f: "\<not> 1000 > expires_at (example_row 0)" "attempts (example_row 0) < 5"
    "otp (example_row 0) = ''482913''"
    by (simp_all add: example_row_def)
  have e: "(example_store [example_row 0])\<lparr>otp_tables := (otp_tables (example_store [example_row 0]))
              (getTableName ''sms'' \<mapsto> map (\<lambda>x. if x = example_row 0
                 then (example_row 0)\<lparr>is_used := True, verified_at := Some (CURRENT_TIMESTAMP 1000)\<rparr>
                 else x) [example_row 0])\<rparr>
           = example_store [verified_row]"
    by (simp add: example_store_def verified_row_def getTableName_def CURRENT_TIMESTAMP_def)
  have g: "(example_store [verified_row])\<lparr>faults := []\<rparr> = example_store [verified_row]"
    by (simp add: example_store_def)
  from verifyOTP_verified_once [OF h d r u f]
  obtain res where first:
      "verifyOTP 1000 ''sms'' ''+15551234567'' ''482913'' ''abc'' (example_store [example_row 0])
         = (Inr res, example_store [verified_row])" "code res = VERIFIED"
    and later: "\<forall>calls fs now' claimed'.
        (\<forall>c \<in> set calls. \<not> reissues (getTableName ''sms'') ''+15551234567'' ''abc'' c) \<longrightarrow>
        fst (verifyOTP now' ''sms'' ''+15551234567'' claimed' ''abc''
               (fold perform calls ((example_store [verified_row])\<lparr>faults := fs\<rparr>))) =
          (if \<exists>fs'. faults (fold perform calls ((example_store [verified_row])\<lparr>faults := fs\<rparr>)) = True # fs'
           then Inl (JsError ''Failed to verify OTP'')
           else Inr \<lparr>success = False, message = ''Invalid or expired verification code'',
                     code = INVALID_OTP, remainingAttempts = None\<rparr>)"
    unfolding e by blast
  from later [THEN spec, of "[]", THEN spec, of "[]", THEN spec, of 2000, THEN spec, of "''482913''"]
  have second: "fst (verifyOTP 2000 ''sms'' ''+15551234567'' ''482913'' ''abc'' (example_store [verified_row]))
        = Inr \<lparr>success = False, message = ''Invalid or expired verification code'',
                code = INVALID_OTP, remainingAttempts = None\<rparr>"
    unfolding g by (simp add: example_store_def)
  have m: "filter (\<lambda>x. otp_identifier x = ''+15551234567'' \<and> otp_token x = ''abc'' \<and> \<not> is_used x)
         [example_row 0] = [example_row 0]"
    by (simp add: example_row_def)
  from h d r m f first second show ?thesis
    by blast
qed

section \<open>The verification grant\<close>






section \<open>The sweep of expired codes\<close>

text \<open>
  C8. The sweep does not delete every row whose expiry lies more than 24 hours back. A
  code that expired at 2025-01-02T01:00:00.000Z is still in its table after
  \<^verbatim>\<open>cleanupExpiredOTPs()\<close> at 2025-01-03T23:00:00Z, 46 hours later: the text
  \<^verbatim>\<open>2025-01-02T01:00:00.000Z\<close> is not below \<^verbatim>\<open>2025-01-02 23:00:00\<close>.
\<close>

theorem cleanupExpiredOTPs_keeps_row_expired_46_hours_ago:
  "1735945200000 - expires_at stale_row = 46 * 60 * 60 * 1000
   \<and> rows_in ''otp_codes'' (snd (cleanupExpiredOTPs 1735945200000 None (example_store [stale_row])))
       = [stale_row]"
  by (simp add: cleanupExpiredOTPs_def cleanup_tables_def dbRun_def db_call_def example_store_def
      otp_table_def put_otp_table_def delete_expired_def iso_text_less_datetime_def
      datetime_now_minus_1_day_def CURRENT_TIMESTAMP_def stale_row_def rows_in_def)

text \<open>
  The two texts of that comparison, in the order of their characters, which is how
  SQLite compares them; one calendar day later the stored text does lie below.
\<close>

lemma stale_text_not_below_cutoff_text:
  "\<not> (''2025-01-02T01:00:00.000Z'' < ''2025-01-02 23:00:00'')"
  by simp

lemma stale_text_below_next_day_text:
  "''2025-01-02T01:00:00.000Z'' < ''2025-01-03 00:00:00''"
  by simp

text \<open>
  What the sweep does do: it removes only rows that expired more than 24 hours ago, and
  a second pass at the same instant removes nothing more.
\<close>

lemma delete_expired_idempotent:
  "delete_expired now (delete_expired now rows) = delete_expired now rows"
  by (simp add: delete_expired_def)


lemma delete_expired_only_older_than_a_day:
  assumes "r \<in> set rows" and "r \<notin> set (delete_expired now rows)"
  shows "now - expires_at r > 24 * 60 * 60 * 1000"
proof -
  define e where "e = expires_at r div 86400000"
  define c where "c = (now div 1000 - 86400) div 86400"
  have less: "e < c"
    using assms
    by (simp add: delete_expired_def iso_text_less_datetime_def datetime_now_minus_1_day_def
        CURRENT_TIMESTAMP_def e_def c_def)
  have f1: "expires_at r = e * 86400000 + expires_at r mod 86400000"
    unfolding e_def by (rule div_mult_mod_eq [symmetric])
  have f2: "expires_at r mod 86400000 < 86400000"
    by (rule pos_mod_bound) simp
  have f3: "now div 1000 - 86400 = c * 86400 + (now div 1000 - 86400) mod 86400"
    unfolding c_def by (rule div_mult_mod_eq [symmetric])
  have f4: "0 \<le> (now div 1000 - 86400) mod 86400"
    by (rule pos_mod_sign) simp
  have f5: "now = now div 1000 * 1000 + now mod 1000"
    by (rule div_mult_mod_eq [symmetric])
  have f6: "0 \<le> now mod 1000"
    by (rule pos_mod_sign) simp
  from less f1 f2 f3 f4 f5 f6 show ?thesis
    by linarith
qed

section \<open>The notification service reports success\<close>

text \<open>
  C5. Whatever the configuration and whatever the provider does (not configured,
  delivery succeeds, delivery throws), \<^verbatim>\<open>sendSMS\<close>, \<^verbatim>\<open>sendEmail\<close> and the two OTP
  senders built on them return a result with \<^verbatim>\<open>success: true\<close>; none returns a
  failure or rejects.
\<close>

theorem send_always_reports_success:
  "(\<exists>r. fst (sendSMS svc env mobile msg) = Inr r \<and> send_success r)
   \<and> (\<exists>r. fst (sendEmail svc env email subject html) = Inr r \<and> send_success r)
   \<and> (\<exists>r. fst (sendOTPSMS svc env mobile code_text) = Inr r \<and> send_success r)
   \<and> (\<exists>r. fst (sendOTPEmail template svc env email code_text) = Inr r \<and> send_success r)"
  by (simp add: sendOTPSMS_def sendOTPEmail_def sendSMS_def sendEmail_def
      split: option.split sum.split)

text \<open>The three cases of \<^verbatim>\<open>sendSMS\<close>, with what reaches the console.\<close>

lemma sendSMS_cases:
  "sendSMS svc env mobile msg =
     (if enableSMS svc \<and> twilioClient svc \<noteq> None then
        (case the (twilioClient svc) msg mobile (TWILIO_PHONE_NUMBER env) of
           Inr sid \<Rightarrow> (Inr \<lparr>send_success = True, messageId = Some sid, fallback = False, development = False\<rparr>,
                       [ConsoleLog (''SMS sent to '' @ mobile @ '' - SID: '' @ sid)])
         | Inl m \<Rightarrow> (Inr \<lparr>send_success = True, messageId = None, fallback = True, development = False\<rparr>,
                      ConsoleError (''SMS error: '' @ m) # logSMS mobile msg))
      else (Inr \<lparr>send_success = True, messageId = None, fallback = False, development = True\<rparr>,
            logSMS mobile msg))"
  by (auto simp: sendSMS_def split: option.splits sum.splits)

section \<open>Failures of the store\<close>












section \<open>Signup and the passkey\<close>

lemma update_by_key:
  "distinct (map key rows) \<Longrightarrow> r \<in> set rows \<Longrightarrow>
     map (\<lambda>x. if key x = key r then f x else x) rows = map (\<lambda>x. if x = r then f r else x) rows"
  by (auto simp: distinct_map inj_on_def)

lemma find_Some_mem: "find P xs = Some x \<Longrightarrow> x \<in> set xs \<and> P x"
  by (auto simp: find_Some_iff)





text \<open>
  C10. On a store that answers, a request to set the passkey whose email is that of an
  account (the one the lookup returns) and whose passkey has at least 8 characters is
  answered 200, and the store differs only in the passkey hash of that account, whatever
  the \<^verbatim>\<open>Authorization\<close> header holds and also when there is none: the route consults
  no credential.
\<close>

theorem set_passkey_needs_no_credential:
  assumes "faults s = []"
    and "distinct (map user_id (users s))"
    and "select_by_email (req_email req) (users s) = Some u"
    and "req_email req \<noteq> []"
    and "length (req_passkey req) \<ge> 8"
  shows "set_passkey lib salt (req\<lparr>authorization := credential\<rparr>) s =
           (reply 200 True ''Security passkey set successfully'',
            s\<lparr>users := map (\<lambda>x. if x = u
                 then u\<lparr>user_passkey := Some (bcrypt_hash lib (req_passkey req) salt)\<rparr> else x) (users s)\<rparr>)"
proof -
  have mem: "u \<in> set (users s)"
    using assms(3) by (simp add: select_by_email_def find_Some_mem)
  have upd: "\<And>h. update_passkey h (user_id u) (users s)
               = map (\<lambda>x. if x = u then u\<lparr>user_passkey := Some h\<rparr> else x) (users s)"
    unfolding update_passkey_def using assms(2) mem by (rule update_by_key)
  have ne: "req_passkey req \<noteq> []"
    using assms(5) by auto
  show ?thesis
    using assms(1,3,4,5) ne
    by (simp add: set_passkey_def dbGet_answers dbRun_answers users_table_def put_users_def upd)
qed

theorem set_passkey_needs_no_credential_witness:
  "faults (accounts_store [] []) = []
   \<and> distinct (map user_id (users (accounts_store [] [])))
   \<and> select_by_email (req_email passkey_request) (users (accounts_store [] [])) = Some account_a
   \<and> req_email passkey_request \<noteq> [] \<and> length (req_passkey passkey_request) \<ge> 8
   \<and> authorization passkey_request = None
   \<and> set_passkey example_libraries ''salt'' passkey_request (accounts_store [] []) =
       (reply 200 True ''Security passkey set successfully'',
        (accounts_store [] [])\<lparr>users := [account_b, account_a\<lparr>user_passkey := Some ''saltopen sesame''\<rparr>]\<rparr>)"
proof -
  have h: "faults (accounts_store [] []) = []"
    by (simp add: accounts_store_def)
  have d: "distinct (map user_id (users (accounts_store [] [])))"
    by (simp add: accounts_store_def account_a_def account_b_def)
  have l: "select_by_email (req_email passkey_request) (users (accounts_store [] [])) = Some account_a"
    by (simp add: select_by_email_def passkey_request_def blank_request_def accounts_store_def
        account_a_def account_b_def)
  have f: "req_email passkey_request \<noteq> []" "length (req_passkey passkey_request) \<ge> 8"
    "authorization passkey_request = None"
    by (simp_all add: passkey_request_def blank_request_def)
  have e: "passkey_request\<lparr>authorization := None\<rparr> = passkey_request"
    by (simp add: passkey_request_def blank_request_def)
  have n: "account_b \<noteq> account_a"
    by (simp add: account_a_def account_b_def)
  have k: "bcrypt_hash example_libraries (req_passkey passkey_request) ''salt'' = ''saltopen sesame''"
    by (simp add: example_libraries_def passkey_request_def blank_request_def)
  have u: "users (accounts_store [] []) = [account_b, account_a]"
    by (simp add: accounts_store_def)
  from set_passkey_needs_no_credential [OF h d l f(1,2), of example_libraries "''salt''" None]
  have "set_passkey example_libraries ''salt'' passkey_request (accounts_store [] []) =
       (reply 200 True ''Security passkey set successfully'',
        (accounts_store [] [])\<lparr>users := [account_b, account_a\<lparr>user_passkey := Some ''saltopen sesame''\<rparr>]\<rparr>)"
    unfolding e k u using n by simp
  with h d l f show ?thesis
    by blast
qed

text \<open>
  By contrast the routes behind \<^verbatim>\<open>protect\<close> answer 401 to a request that carries no
  \<^verbatim>\<open>Authorization\<close> header.
\<close>

lemma protected_route_rejects_missing_header:
  "authorization req = None \<Longrightarrow>
     post_financial_profile lib now req b s = (reply 401 False ''Not authorized to access this route'', s)"
  by (simp add: post_financial_profile_def protect_def bearer_token_def)

section \<open>The summary of a profile submission\<close>






text \<open>The hundredths that are written lie within half a hundredth of the value.\<close>

lemma two_decimals_nearest:
  "\<bar>of_nat (nat \<lfloor>\<bar>x\<bar> * 100 + 1 / 2\<rfloor>) / 100 - \<bar>x\<bar>\<bar> \<le> (1 / 200 :: rat)"
proof -
  define a where "a = \<bar>x\<bar>"
  define k where "k = (of_int \<lfloor>a * 100 + 1 / 2\<rfloor> :: rat)"
  have "0 \<le> \<lfloor>a * 100 + 1 / 2\<rfloor>"
    by (simp add: a_def)
  then have n: "(of_nat (nat \<lfloor>a * 100 + 1 / 2\<rfloor>) :: rat) = k"
    by (simp add: k_def)
  have lo: "k \<le> a * 100 + 1 / 2"
    unfolding k_def by (rule of_int_floor_le)
  have hi: "a * 100 + 1 / 2 < k + 1"
    unfolding k_def using floor_correct [of "a * 100 + 1 / 2"] by simp
  have "\<bar>k / 100 - a\<bar> \<le> 1 / 200"
  proof (rule abs_leI)
    show "k / 100 - a \<le> 1 / 200"
      using lo by linarith
    show "- (k / 100 - a) \<le> 1 / 200"
      using hi by linarith
  qed
  then show ?thesis
    using n by (simp add: a_def)
qed








end
